theory Spec2Isabelle
  imports Complex_Main
begin

section \<open>Lua values and results\<close>

text \<open>
  The threading module (\<^verbatim>\<open>thread.c\<close>) is glue between three libraries: Lua 5.1, the
  Apache Portable Runtime and the binding's own object wrapper and serializer. The module's
  own functions are embedded below statement by statement. Every call that leaves
  \<^verbatim>\<open>thread.c\<close> is either given its documented library behaviour or taken from
  an environment record, so that every theorem holds for every behaviour of the callee.

  A Lua value, as far as the module can tell values apart: it tests for strings and
  numbers (\<^verbatim>\<open>lua_isstring\<close>) and pushes booleans, strings and nil.
\<close>

type_synonym lua_Number = real

datatype lua_value =
    LNil
  | LBoolean bool
  | LNumber lua_Number
  | LString string
  | LFunction nat
  | LTable nat
  | LUserdata nat

text \<open>
  What a \<^verbatim>\<open>lua_CFunction\<close> hands back to its caller: the values it returns
  (the top \<open>n\<close> stack slots, first result first), or an error raised through
  \<^verbatim>\<open>lua_error\<close>.
\<close>

datatype lua_result = Return "lua_value list" | Raise lua_value

type_synonym apr_status_t = int

definition APR_SUCCESS :: apr_status_t where
  "APR_SUCCESS = 0"

subsection \<open>C strings\<close>

text \<open>
  \<^verbatim>\<open>strdup\<close> and \<^verbatim>\<open>apr_pstrdup\<close> copy up to the first NUL byte.
  \<^verbatim>\<open>apr_pstrdup\<close> maps \<^verbatim>\<open>NULL\<close> to \<^verbatim>\<open>NULL\<close>;
  \<^verbatim>\<open>strdup(NULL)\<close> is undefined and is a branch of its own at each call site.
\<close>

definition strdup :: "string \<Rightarrow> string" where
  "strdup s = takeWhile (\<lambda>c. c \<noteq> CHR 0x00) s"

definition apr_pstrdup :: "string option \<Rightarrow> string option" where
  "apr_pstrdup p = (case p of None \<Rightarrow> None | Some s \<Rightarrow> Some (strdup s))"

subsection \<open>The Lua 5.1 C API, as far as the module uses it\<close>

definition lua_isstring :: "lua_value \<Rightarrow> bool" where
  "lua_isstring v = (case v of LString _ \<Rightarrow> True | LNumber _ \<Rightarrow> True | _ \<Rightarrow> False)"

text \<open>
  \<^verbatim>\<open>lua_tolstring\<close> converts strings and numbers and yields
  \<^verbatim>\<open>NULL\<close> for everything else. How a number prints is Lua's business
  (\<^verbatim>\<open>lua_number2str\<close>), hence a parameter.
\<close>

definition lua_tolstring :: "(lua_Number \<Rightarrow> string) \<Rightarrow> lua_value \<Rightarrow> string option" where
  "lua_tolstring number2str v =
     (case v of LString s \<Rightarrow> Some s | LNumber n \<Rightarrow> Some (number2str n) | _ \<Rightarrow> None)"

text \<open>\<^verbatim>\<open>lua_pushstring\<close> pushes nil for a \<^verbatim>\<open>NULL\<close> pointer.\<close>

definition lua_pushstring :: "string option \<Rightarrow> lua_value" where
  "lua_pushstring p = (case p of None \<Rightarrow> LNil | Some s \<Rightarrow> LString s)"

section \<open>The thread object\<close>

datatype thread_status_t = TS_INIT | TS_RUNNING | TS_DONE | TS_ERROR | TS_DETACH

definition status_names :: "string list" where
  "status_names = [''init'', ''running'', ''done'', ''error'', ''detach'']"

text \<open>The enumerators number from zero in declaration order.\<close>

fun thread_status_index :: "thread_status_t \<Rightarrow> nat" where
  "thread_status_index TS_INIT = 0"
| "thread_status_index TS_RUNNING = 1"
| "thread_status_index TS_DONE = 2"
| "thread_status_index TS_ERROR = 3"
| "thread_status_index TS_DETACH = 4"

text \<open>
  \<^verbatim>\<open>lua_apr_thread_object\<close>. The header belongs to the reference-counting wrapper
  and is represented by its reference count; pool, native handle and attribute are opaque
  pointers (\<open>None\<close> is \<^verbatim>\<open>NULL\<close>); \<open>joined\<close> is a C \<^verbatim>\<open>int\<close> used as a flag.
\<close>

type_synonym lua_apr_refobj = nat

record lua_apr_thread_object =
  header :: lua_apr_refobj
  pool :: "nat option"
  handle :: "nat option"
  attr :: "nat option"
  input :: "string option"
  "output" :: "string option"
  path :: "string option"
  cpath :: "string option"
  config :: "string option"
  status :: thread_status_t
  joined :: bool

definition thread_busy :: "lua_apr_thread_object \<Rightarrow> bool" where
  "thread_busy T = (status T = TS_INIT \<or> status T = TS_RUNNING)"

section \<open>Effects\<close>

text \<open>
  Each function returns, next to its result and the updated object, the list of effects it
  performed in program order: calls into the libraries (a call is listed when it has
  returned, so \<open>Lua_pcall\<close> marks the end of the worker function's run), writes of the two
  fields the worker shares with its owner, and lines printed on the error stream
  (\<open>Fprintf_stderr format arguments\<close>, a \<open>None\<close> argument being a \<^verbatim>\<open>NULL\<close> pointer).
\<close>

datatype event =
    Object_incref
  | Free_output
  | Release_object
  | LuaL_newstate bool
  | LuaL_openlibs
  | Lua_setfield_package string lua_value
  | Lua_apr_unserialize
  | Lua_apr_serialize
  | LuaL_loadbuffer bool
  | Lua_pcall
  | Lua_close
  | Write_output "string option"
  | Write_status thread_status_t
  | New_object
  | Apr_pool_create
  | Apr_threadattr_create
  | Apr_thread_create
  | Apr_thread_join
  | Apr_thread_detach
  | Apr_thread_exit apr_status_t
  | Fprintf_stderr string "string option list"

section \<open>The environment\<close>

text \<open>
  The callees that are not part of \<^verbatim>\<open>thread.c\<close>. A serializer call either
  raises a Lua error (\<open>Inl\<close>) or succeeds (\<open>Inr\<close>). \<open>apr_thread_join\<close> blocks while
  the worker writes \<open>status\<close> and \<open>output\<close>, so next to its status code it yields the
  contents of these two fields when it returns. The calls of \<^verbatim>\<open>apr.thread\<close> happen
  once each, so their outcomes are plain values: the status code and the pointer stored.
  \<open>package\<close> is the global of that name in the parent state, \<open>None\<close> unless it is
  a table, and otherwise its fields. \<open>new_object\<close> yields the userdata and the fresh
  object, or \<open>None\<close> for \<^verbatim>\<open>NULL\<close>. \<open>luaL_loadbuffer\<close> yields the
  compiler's message or the chunk; \<open>lua_pcall\<close> yields the value left by the message
  handler or the results of the call.
\<close>

record env =
  lua_number2str :: "lua_Number \<Rightarrow> string"
  lua_apr_serialize :: "lua_value list \<Rightarrow> lua_value + string"
  lua_apr_unserialize :: "lua_value \<Rightarrow> lua_value + lua_value list"
  luaL_newstate :: bool
  luaL_loadbuffer :: "string \<Rightarrow> string + lua_value"
  lua_pcall :: "lua_value \<Rightarrow> lua_value list \<Rightarrow> lua_value + lua_value list"
  package :: "(string \<Rightarrow> lua_value) option"
  object_incref :: "lua_apr_refobj \<Rightarrow> lua_apr_refobj"
  object_collectable :: "lua_apr_refobj \<Rightarrow> bool"
  release_object :: "lua_apr_refobj \<Rightarrow> lua_apr_refobj"
  new_object :: "(nat \<times> lua_apr_thread_object) option"
  APR_ENOMEM :: apr_status_t
  apr_strerror :: "apr_status_t \<Rightarrow> string"
  apr_pool_create :: "apr_status_t \<times> nat option"
  apr_threadattr_create :: "apr_status_t \<times> nat option"
  apr_thread_create :: "apr_status_t \<times> nat option"
  apr_thread_join :: "lua_apr_thread_object \<Rightarrow> apr_status_t \<times> thread_status_t \<times> string option"
  apr_thread_detach :: "lua_apr_thread_object \<Rightarrow> apr_status_t"

text \<open>
  Modelled from the spec: \<^verbatim>\<open>push_error_status\<close> is defined outside
  \<^verbatim>\<open>thread.c\<close>. The spec gives the failure shape of every operation as
  \<open>(nil, error)\<close>, the error being the message for the underlying status code.
\<close>

definition push_error_status :: "env \<Rightarrow> apr_status_t \<Rightarrow> lua_value list" where
  "push_error_status E st = [LNil, LString (apr_strerror E st)]"

section \<open>Supervisor: join, status, detach\<close>

text \<open>
  \<^verbatim>\<open>thread_join\<close>, lines 254 to 281. \<^verbatim>\<open>check_thread\<close> has already
  accepted the argument: the function is applied to a thread object.
\<close>

definition thread_join ::
  "env \<Rightarrow> lua_apr_thread_object \<Rightarrow> lua_result \<times> lua_apr_thread_object \<times> event list" where
  "thread_join E object0 =
     (let (failed, object, evs) =
        (if \<not> joined object0 then
           (case apr_thread_join E object0 of (st, s, out) \<Rightarrow>
              let object1 = object0\<lparr>status := s, output := out\<rparr> in
              if st \<noteq> APR_SUCCESS then (Some st, object1, [Apr_thread_join])
              else (None, object1\<lparr>joined := True\<rparr>, [Apr_thread_join]))
         else (None, object0, []))
      in case failed of
        Some st \<Rightarrow> (Return (push_error_status E st), object, evs)
      | None \<Rightarrow>
          if status object = TS_DONE then
            (case lua_apr_unserialize E (lua_pushstring (output object)) of
               Inl err \<Rightarrow> (Raise err, object, evs @ [Lua_apr_unserialize])
             | Inr vs \<Rightarrow> (Return (LBoolean True # vs), object, evs @ [Lua_apr_unserialize]))
          else (Return [LBoolean False, lua_pushstring (output object)], object, evs))"

text \<open>\<^verbatim>\<open>thread_status\<close>, lines 292 to 300.\<close>

definition thread_status :: "lua_apr_thread_object \<Rightarrow> lua_result" where
  "thread_status object = Return [LString (status_names ! thread_status_index (status object))]"

text \<open>\<^verbatim>\<open>thread_detach\<close>, lines 310 to 322.\<close>

definition thread_detach ::
  "env \<Rightarrow> lua_apr_thread_object \<Rightarrow> lua_result \<times> lua_apr_thread_object \<times> event list" where
  "thread_detach E object =
     (let st = apr_thread_detach E object in
      if st = APR_SUCCESS then
        (Return [LBoolean True], object\<lparr>status := TS_DETACH\<rparr>,
         [Apr_thread_detach, Write_status TS_DETACH])
      else (Return (push_error_status E st), object, [Apr_thread_detach]))"

section \<open>Releasing an object\<close>

text \<open>\<^verbatim>\<open>thread_destroy\<close>, lines 88 to 94.\<close>

definition thread_destroy ::
  "env \<Rightarrow> lua_apr_thread_object \<Rightarrow> lua_apr_thread_object \<times> event list" where
  "thread_destroy E thread =
     (let evs = (if object_collectable E (header thread) then [Free_output] else [])
      in (thread\<lparr>header := release_object E (header thread)\<rparr>, evs @ [Release_object]))"

section \<open>Finalizer\<close>

text \<open>\<^verbatim>\<open>thread_gc\<close>, lines 337 to 361.\<close>

definition thread_gc ::
  "env \<Rightarrow> lua_apr_thread_object \<Rightarrow> lua_result \<times> lua_apr_thread_object \<times> event list" where
  "thread_gc E thread0 =
     (let (thread, evs) =
        (if \<not> joined thread0 then
           let evs0 = [Fprintf_stderr
                         (''Lua/APR joining child thread from __gc() hook ..'' @ [CHR 0x0A]) []]
           in
           if status thread0 = TS_DETACH then
             (thread0,
              evs0 @ [Fprintf_stderr (''Lua/APR thread detach error: %s'' @ [CHR 0x0A])
                        [output thread0]])
           else
             (case apr_thread_join E thread0 of (st, s, out) \<Rightarrow>
                let thread1 = thread0\<lparr>status := s, output := out\<rparr> in
                if st \<noteq> APR_SUCCESS then
                  (thread1,
                   evs0 @ [Apr_thread_join,
                           Fprintf_stderr (''Lua/APR failed to join thread: %s'' @ [CHR 0x0A])
                             [Some (apr_strerror E st)]])
                else if status thread1 = TS_ERROR then
                  (thread1,
                   evs0 @ [Apr_thread_join,
                           Fprintf_stderr (''Lua/APR thread exited with error: %s'' @ [CHR 0x0A])
                             [output thread1]])
                else (thread1, evs0 @ [Apr_thread_join]))
         else (thread0, []));
        (thread', evs') = thread_destroy E thread
      in (Return [], thread', evs @ evs'))"

section \<open>Thread runner\<close>

text \<open>
  How the code started on the native thread ends: \<^verbatim>\<open>apr_thread_exit\<close> with a
  status code; a Lua error raised outside any protected call, which ends in Lua's panic
  handler and the death of the process; or undefined behaviour of C
  (\<^verbatim>\<open>strdup(NULL)\<close>, \<^verbatim>\<open>lua_pcall\<close> with a negative argument count).
\<close>

datatype runner_exit = Thread_exit apr_status_t | Lua_panic lua_value | Undefined_behaviour

text \<open>
  \<^verbatim>\<open>thread_runner\<close>, lines 98 to 163. \<open>stack\<close> holds the slots from index 2 up:
  slot 1 is \<^verbatim>\<open>error_handler\<close>. The local variable \<^verbatim>\<open>status\<close> is the
  \<open>Inr\<close> component of \<open>r\<close>.
\<close>

definition thread_runner ::
  "env \<Rightarrow> lua_apr_thread_object \<Rightarrow> runner_exit \<times> lua_apr_thread_object \<times> event list" where
  "thread_runner E thread0 =
     (let thread1 = thread0\<lparr>header := object_incref E (header thread0)\<rparr>;
          (r, thread2, evs) =
            (if \<not> luaL_newstate E then
               (Inr TS_ERROR,
                thread1\<lparr>output := Some (strdup ''Failed to create Lua state'')\<rparr>,
                [LuaL_newstate False, Write_output (Some (strdup ''Failed to create Lua state''))])
             else
               let evs0 = [LuaL_newstate True, LuaL_openlibs,
                           Lua_setfield_package ''config'' (lua_pushstring (config thread1)),
                           Lua_setfield_package ''path'' (lua_pushstring (path thread1)),
                           Lua_setfield_package ''cpath'' (lua_pushstring (cpath thread1)),
                           Lua_apr_unserialize]
               in
               case lua_apr_unserialize E (lua_pushstring (input thread1)) of
                 Inl err \<Rightarrow> (Inl (Lua_panic err), thread1, evs0)
               | Inr stack \<Rightarrow>
                   let (status1, stack1, thread2, evs1) =
                     (case stack of
                        [] \<Rightarrow> (TS_INIT, stack, thread1, evs0)
                      | f # args \<Rightarrow>
                          if lua_isstring f then
                            (case lua_tolstring (lua_number2str E) f of
                               None \<Rightarrow> (TS_INIT, stack, thread1, evs0)
                             | Some function \<Rightarrow>
                                 (case luaL_loadbuffer E function of
                                    Inl msg \<Rightarrow>
                                      (TS_ERROR, stack @ [LString msg],
                                       thread1\<lparr>output := Some (strdup msg)\<rparr>,
                                       evs0 @ [LuaL_loadbuffer False,
                                               Write_output (Some (strdup msg))])
                                  | Inr chunk \<Rightarrow>
                                      (TS_INIT, chunk # args, thread1,
                                       evs0 @ [LuaL_loadbuffer True])))
                          else (TS_INIT, stack, thread1, evs0))
                   in
                   if status1 \<noteq> TS_ERROR then
                     let thread3 = thread2\<lparr>status := TS_RUNNING\<rparr>;
                         evs2 = evs1 @ [Write_status TS_RUNNING]
                     in
                     (case stack1 of
                        [] \<Rightarrow> (Inl Undefined_behaviour, thread3, evs2)
                      | f # args \<Rightarrow>
                          (case lua_pcall E f args of
                             Inl err \<Rightarrow>
                               (case lua_tolstring (lua_number2str E) err of
                                  None \<Rightarrow> (Inl Undefined_behaviour, thread3, evs2 @ [Lua_pcall])
                                | Some msg \<Rightarrow>
                                    (Inr TS_ERROR, thread3\<lparr>output := Some (strdup msg)\<rparr>,
                                     evs2 @ [Lua_pcall, Write_output (Some (strdup msg)),
                                             Lua_close]))
                           | Inr results \<Rightarrow>
                               (case lua_apr_serialize E results of
                                  Inl err \<Rightarrow>
                                    (Inl (Lua_panic err), thread3,
                                     evs2 @ [Lua_pcall, Lua_apr_serialize])
                                | Inr s \<Rightarrow>
                                    (Inr TS_DONE, thread3\<lparr>output := Some (strdup s)\<rparr>,
                                     evs2 @ [Lua_pcall, Lua_apr_serialize,
                                             Write_output (Some (strdup s)), Lua_close]))))
                   else (Inr status1, thread2, evs1 @ [Lua_close]))
      in case r of
           Inl abnormal \<Rightarrow> (abnormal, thread2, Object_incref # evs)
         | Inr st \<Rightarrow>
             let thread3 = thread2\<lparr>status := st\<rparr>;
                 (thread4, evs') = thread_destroy E thread3
             in (Thread_exit APR_SUCCESS, thread4,
                 Object_incref # evs @ [Write_status st] @ evs' @ [Apr_thread_exit APR_SUCCESS]))"

section \<open>Supervisor: spawn\<close>

text \<open>The code at the label \<^verbatim>\<open>fail\<close>, lines 226 to 229.\<close>

definition lua_apr_thread_fail ::
  "env \<Rightarrow> lua_apr_thread_object option \<Rightarrow> apr_status_t \<Rightarrow> event list
     \<Rightarrow> lua_result \<times> lua_apr_thread_object option \<times> event list" where
  "lua_apr_thread_fail E thread st evs =
     (case thread of
        None \<Rightarrow> (Return (push_error_status E st), None, evs)
      | Some t \<Rightarrow>
          (case thread_destroy E t of (t', evs') \<Rightarrow>
             (Return (push_error_status E st), Some t', evs @ evs')))"

text \<open>The macro \<^verbatim>\<open>get_package_value\<close>, lines 200 to 204: the new value of the field.\<close>

definition get_package_value ::
  "env \<Rightarrow> (string \<Rightarrow> lua_value) \<Rightarrow> string \<Rightarrow> string option \<Rightarrow> string option" where
  "get_package_value E pkg fieldname fieldptr =
     (if lua_isstring (pkg fieldname)
      then apr_pstrdup (lua_tolstring (lua_number2str E) (pkg fieldname))
      else fieldptr)"

text \<open>
  \<^verbatim>\<open>lua_apr_thread\<close>, lines 176 to 230, applied to the arguments of
  \<^verbatim>\<open>apr.thread\<close>. The second component is the thread object, if one was allocated.
\<close>

definition lua_apr_thread ::
  "env \<Rightarrow> lua_value list \<Rightarrow> lua_result \<times> lua_apr_thread_object option \<times> event list" where
  "lua_apr_thread E args =
     (case lua_apr_serialize E args of
        Inl err \<Rightarrow> (Raise err, None, [Lua_apr_serialize])
      | Inr serialized \<Rightarrow>
          (case new_object E of
             None \<Rightarrow> lua_apr_thread_fail E None (APR_ENOMEM E) [Lua_apr_serialize, New_object]
           | Some (ud, thread0) \<Rightarrow>
               let thread1 = thread0\<lparr>status := TS_INIT\<rparr>;
                   (st1, p) = apr_pool_create E;
                   thread2 = thread1\<lparr>pool := p\<rparr>;
                   evs1 = [Lua_apr_serialize, New_object, Write_status TS_INIT, Apr_pool_create]
               in
               if st1 \<noteq> APR_SUCCESS then lua_apr_thread_fail E (Some thread2) st1 evs1
               else
                 let thread3 = thread2\<lparr>input :=
                       apr_pstrdup (lua_tolstring (lua_number2str E) (LString serialized))\<rparr>;
                     thread4 =
                       (case package E of
                          None \<Rightarrow> thread3
                        | Some pkg \<Rightarrow>
                            thread3\<lparr>config := get_package_value E pkg ''config'' (config thread3),
                                    path := get_package_value E pkg ''path'' (path thread3),
                                    cpath := get_package_value E pkg ''cpath'' (cpath thread3)\<rparr>);
                     (st2, a) = apr_threadattr_create E;
                     thread5 = thread4\<lparr>attr := a\<rparr>;
                     (st3, thread6, evs2) =
                       (if st2 = APR_SUCCESS then
                          (case apr_thread_create E of (st, h) \<Rightarrow>
                             (st, thread5\<lparr>handle := h\<rparr>,
                              evs1 @ [Apr_threadattr_create, Apr_thread_create]))
                        else (st2, thread5, evs1 @ [Apr_threadattr_create]))
                 in
                 if st3 \<noteq> APR_SUCCESS then lua_apr_thread_fail E (Some thread6) st3 evs2
                 else (Return [LUserdata ud], Some thread6, evs2)))"

section \<open>Concrete inputs\<close>

text \<open>
  One environment in which every call succeeds, and one thread object as
  \<^verbatim>\<open>apr.thread\<close> leaves it. The worker function \<open>LFunction 0\<close> returns
  \<open>(1, "two", true)\<close>; every other function raises the string \<open>boom\<close>. The
  theorems below are instantiated at these values and at updates of them.
\<close>

definition demo_results :: "lua_value list" where
  "demo_results = [LNumber 1, LString ''two'', LBoolean True]"

definition demo_thread :: lua_apr_thread_object where
  "demo_thread =
     \<lparr>header = 1, pool = Some 1, handle = Some 3, attr = Some 2,
      input = Some ''f0'', output = None,
      path = Some ''./?.lua'', cpath = Some ''./?.so'', config = None,
      status = TS_INIT, joined = False\<rparr>"

definition demo_env :: env where
  "demo_env =
     \<lparr>lua_number2str = (\<lambda>n. ''1''),
      lua_apr_serialize =
        (\<lambda>vs. if vs = demo_results then Inr ''1|two|true''
              else if vs = LBoolean True # demo_results then Inr ''true|1|two|true''
              else if vs = [LFunction 0] then Inr ''f0''
              else if vs = [] then Inr []
              else Inl (LString ''cannot serialize'')),
      lua_apr_unserialize =
        (\<lambda>v. if v = LString ''1|two|true'' then Inr demo_results
             else if v = LString ''true|1|two|true'' then Inr (LBoolean True # demo_results)
             else if v = LString ''f0'' then Inr [LFunction 0]
             else if v = LString [] then Inr []
             else Inl (LString ''cannot unserialize'')),
      luaL_newstate = True,
      luaL_loadbuffer = (\<lambda>s. Inl ''syntax error''),
      lua_pcall = (\<lambda>f args. if f = LFunction 0 then Inr demo_results else Inl (LString ''boom'')),
      package = Some (\<lambda>k. if k = ''path'' then LString ''./?.lua''
                           else if k = ''cpath'' then LString ''./?.so'' else LNil),
      object_incref = Suc,
      object_collectable = (\<lambda>n. n = 1),
      release_object = (\<lambda>n. n - 1),
      new_object =
        Some (7, \<lparr>header = 1, pool = None, handle = None, attr = None,
                  input = None, output = None, path = None, cpath = None, config = None,
                  status = TS_INIT, joined = False\<rparr>),
      APR_ENOMEM = 12,
      apr_strerror = (\<lambda>st. if st = 12 then ''Cannot allocate memory'' else ''Invalid argument''),
      apr_pool_create = (0, Some 1),
      apr_threadattr_create = (0, Some 2),
      apr_thread_create = (0, Some 3),
      apr_thread_join = (\<lambda>t. (0, TS_DONE, Some ''1|two|true'')),
      apr_thread_detach = (\<lambda>t. 0)\<rparr>"

text \<open>
  The same environment with a wait primitive that fails with \<^verbatim>\<open>EINVAL\<close> (22) and
  leaves the object as it is.
\<close>

definition EINVAL_env :: env where
  "EINVAL_env = demo_env\<lparr>apr_thread_join := \<lambda>t. (22, status t, output t)\<rparr>"




definition source_env :: env where
  "source_env = demo_env\<lparr>lua_apr_unserialize := \<lambda>v. Inr [LString ''return +'']\<rparr>"

section \<open>Facts shared by the proofs\<close>

text \<open>
  \<^verbatim>\<open>lua_isstring\<close> holds exactly where \<^verbatim>\<open>lua_tolstring\<close> yields a
  string, and a string without a NUL byte is copied whole.
\<close>

lemma lua_isstring_tolstring: "lua_isstring v \<longleftrightarrow> lua_tolstring n v \<noteq> None"
  by (cases v) (simp_all add: lua_isstring_def lua_tolstring_def)


text \<open>The concrete runs used as instances.\<close>

lemma demo_join: "thread_join demo_env demo_thread =
     (Return [LBoolean True, LNumber 1, LString ''two'', LBoolean True],
      demo_thread\<lparr>status := TS_DONE, output := Some ''1|two|true'', joined := True\<rparr>,
      [Apr_thread_join, Lua_apr_unserialize])"
  by (simp add: thread_join_def demo_env_def demo_thread_def demo_results_def APR_SUCCESS_def
      lua_pushstring_def)

lemma demo_join_error:
  "thread_join (demo_env\<lparr>apr_thread_join := \<lambda>t. (0, TS_ERROR, Some ''boom'')\<rparr>) demo_thread =
     (Return [LBoolean False, LString ''boom''],
      demo_thread\<lparr>status := TS_ERROR, output := Some ''boom'', joined := True\<rparr>,
      [Apr_thread_join])"
  by (simp add: thread_join_def demo_env_def demo_thread_def demo_results_def APR_SUCCESS_def
      lua_pushstring_def)

lemma demo_runner:
  "thread_runner demo_env demo_thread =
     (Thread_exit APR_SUCCESS,
      demo_thread\<lparr>output := Some ''1|two|true'', status := TS_DONE\<rparr>,
      [Object_incref, LuaL_newstate True, LuaL_openlibs,
       Lua_setfield_package ''config'' LNil,
       Lua_setfield_package ''path'' (LString ''./?.lua''),
       Lua_setfield_package ''cpath'' (LString ''./?.so''),
       Lua_apr_unserialize, Write_status TS_RUNNING, Lua_pcall, Lua_apr_serialize,
       Write_output (Some ''1|two|true''), Lua_close, Write_status TS_DONE,
       Release_object, Apr_thread_exit APR_SUCCESS])"
  by (simp add: thread_runner_def thread_destroy_def demo_env_def demo_thread_def
      lua_pushstring_def lua_isstring_def lua_tolstring_def strdup_def demo_results_def
      APR_SUCCESS_def)




lemma source_runner:
  "thread_runner source_env demo_thread =
     (Thread_exit APR_SUCCESS,
      demo_thread\<lparr>output := Some ''syntax error'', status := TS_ERROR\<rparr>,
      [Object_incref, LuaL_newstate True, LuaL_openlibs,
       Lua_setfield_package ''config'' LNil,
       Lua_setfield_package ''path'' (LString ''./?.lua''),
       Lua_setfield_package ''cpath'' (LString ''./?.so''),
       Lua_apr_unserialize, LuaL_loadbuffer False, Write_output (Some ''syntax error''),
       Lua_close, Write_status TS_ERROR, Release_object, Apr_thread_exit APR_SUCCESS])"
  by (simp add: thread_runner_def thread_destroy_def source_env_def demo_env_def demo_thread_def
      lua_pushstring_def lua_isstring_def lua_tolstring_def strdup_def demo_results_def
      APR_SUCCESS_def)

lemma demo_spawn:
  "lua_apr_thread demo_env [LFunction 0] =
     (Return [LUserdata 7], Some demo_thread,
      [Lua_apr_serialize, New_object, Write_status TS_INIT, Apr_pool_create,
       Apr_threadattr_create, Apr_thread_create])"
  by (simp add: lua_apr_thread_def demo_env_def demo_thread_def demo_results_def APR_SUCCESS_def
      get_package_value_def lua_isstring_def lua_tolstring_def apr_pstrdup_def strdup_def)

text \<open>
  Whenever the runner reaches \<^verbatim>\<open>apr_thread_exit\<close>, it passes
  \<^verbatim>\<open>APR_SUCCESS\<close> and has stored \<open>TS_DONE\<close> or \<open>TS_ERROR\<close>.
\<close>

lemma thread_runner_exit_status:
  assumes "thread_runner E thread = (Thread_exit c, thread', evs)"
  shows "c = APR_SUCCESS \<and> (status thread' = TS_DONE \<or> status thread' = TS_ERROR) \<and>
         last evs = Apr_thread_exit APR_SUCCESS"
  using assms
  by (auto simp: thread_runner_def thread_destroy_def Let_def
      split: prod.splits if_splits sum.splits list.splits option.splits)

text \<open>
  Where the runner writes \<open>status\<close>: what has happened before each write, that source
  text is compiled before \<open>TS_RUNNING\<close> is written, that a failure to create the
  interpreter or to compile ends in \<open>TS_ERROR\<close> without a call of the worker function,
  and the status a reader sees after a prefix of the run that holds no write but
  \<open>TS_RUNNING\<close>.
\<close>

lemma thread_runner_writes:
  assumes "thread_runner E thread = (ex, thread', evs)"
      and "evs = pre @ Write_status s # post"
  shows "(s = TS_RUNNING \<longrightarrow>
            LuaL_newstate True \<in> set pre \<and> LuaL_openlibs \<in> set pre \<and>
            Lua_setfield_package ''config'' (lua_pushstring (config thread)) \<in> set pre \<and>
            Lua_setfield_package ''path'' (lua_pushstring (path thread)) \<in> set pre \<and>
            Lua_setfield_package ''cpath'' (lua_pushstring (cpath thread)) \<in> set pre \<and>
            Lua_apr_unserialize \<in> set pre \<and> LuaL_loadbuffer False \<notin> set pre \<and>
            Lua_pcall \<notin> set pre) \<and>
         (s = TS_DONE \<longrightarrow> Lua_pcall \<in> set pre) \<and>
         (s = TS_ERROR \<longrightarrow>
            Lua_pcall \<in> set pre \<or> LuaL_newstate False \<in> set pre \<or>
            LuaL_loadbuffer False \<in> set pre) \<and>
         s \<noteq> TS_INIT \<and> s \<noteq> TS_DETACH"
  using assms
  by (auto simp: thread_runner_def thread_destroy_def Let_def Cons_eq_append_conv
      split: prod.splits if_splits sum.splits list.splits option.splits)

lemma thread_runner_compiles_first:
  assumes "thread_runner E thread = (ex, thread', evs)"
      and "evs = pre @ Write_status TS_RUNNING # post"
      and "lua_apr_unserialize E (lua_pushstring (input thread)) = Inr (f # args)"
      and "lua_isstring f"
  shows "LuaL_loadbuffer True \<in> set pre"
  using assms lua_isstring_tolstring [of f "lua_number2str E"]
  by (auto simp: thread_runner_def thread_destroy_def Let_def Cons_eq_append_conv
      split: prod.splits if_splits sum.splits list.splits option.splits)

lemma thread_runner_early_error:
  assumes "thread_runner E thread = (ex, thread', evs)"
  shows "(\<not> luaL_newstate E \<longrightarrow>
            ex = Thread_exit APR_SUCCESS \<and> status thread' = TS_ERROR \<and>
            Lua_pcall \<notin> set evs \<and> Write_status TS_RUNNING \<notin> set evs) \<and>
         (\<forall>f args src msg.
            luaL_newstate E \<and>
            lua_apr_unserialize E (lua_pushstring (input thread)) = Inr (f # args) \<and>
            lua_tolstring (lua_number2str E) f = Some src \<and>
            luaL_loadbuffer E src = Inl msg \<longrightarrow>
              ex = Thread_exit APR_SUCCESS \<and> status thread' = TS_ERROR \<and>
              Lua_pcall \<notin> set evs \<and> Write_status TS_RUNNING \<notin> set evs)"
proof (intro conjI allI impI)
  assume "\<not> luaL_newstate E"
  with assms show "ex = Thread_exit APR_SUCCESS" "status thread' = TS_ERROR"
    "Lua_pcall \<notin> set evs" "Write_status TS_RUNNING \<notin> set evs"
    by (auto simp: thread_runner_def thread_destroy_def Let_def split: prod.splits if_splits)
next
  fix f args src msg
  assume h: "luaL_newstate E \<and>
            lua_apr_unserialize E (lua_pushstring (input thread)) = Inr (f # args) \<and>
            lua_tolstring (lua_number2str E) f = Some src \<and>
            luaL_loadbuffer E src = Inl msg"
  then have "lua_isstring f"
    using lua_isstring_tolstring [of f "lua_number2str E"] by simp
  with assms h show "ex = Thread_exit APR_SUCCESS" "status thread' = TS_ERROR"
    "Lua_pcall \<notin> set evs" "Write_status TS_RUNNING \<notin> set evs"
    by (auto simp: thread_runner_def thread_destroy_def Let_def split: prod.splits if_splits)
qed

lemma status_after_prefix:
  assumes "\<And>p s q. pre = p @ Write_status s # q \<Longrightarrow> s = TS_RUNNING"
  shows "foldl (\<lambda>st e. case e of Write_status s \<Rightarrow> s | _ \<Rightarrow> st) TS_INIT pre = TS_INIT \<or>
         foldl (\<lambda>st e. case e of Write_status s \<Rightarrow> s | _ \<Rightarrow> st) TS_INIT pre = TS_RUNNING"
  using assms
proof (induction pre rule: rev_induct)
  case Nil
  then show ?case by simp
next
  case (snoc x xs)
  have "\<And>p s q. xs = p @ Write_status s # q \<Longrightarrow> s = TS_RUNNING"
    using snoc.prems by (metis append_Cons append_assoc)
  then have IH: "foldl (\<lambda>st e. case e of Write_status s \<Rightarrow> s | _ \<Rightarrow> st) TS_INIT xs = TS_INIT \<or>
         foldl (\<lambda>st e. case e of Write_status s \<Rightarrow> s | _ \<Rightarrow> st) TS_INIT xs = TS_RUNNING"
    using snoc.IH by blast
  show ?case
  proof (cases x)
    case (Write_status s)
    then have "s = TS_RUNNING" using snoc.prems [of xs s "[]"] by simp
    with Write_status show ?thesis by simp
  qed (use IH in simp_all)
qed

text \<open>
  The object that \<^verbatim>\<open>apr.thread\<close> returns has status \<open>TS_INIT\<close>, stored before
  the native thread is created, which is the last thing the call does.
\<close>

lemma lua_apr_thread_status_init:
  assumes "lua_apr_thread E args = (Return [LUserdata ud], Some t, evs)"
  shows "status t = TS_INIT \<and> Write_status TS_INIT \<in> set evs \<and>
         last evs = Apr_thread_create"
proof -
  obtain st1 p where pool: "apr_pool_create E = (st1, p)" by (cases "apr_pool_create E")
  obtain st2 ap where attr: "apr_threadattr_create E = (st2, ap)"
    by (cases "apr_threadattr_create E")
  obtain st3 h where create: "apr_thread_create E = (st3, h)" by (cases "apr_thread_create E")
  show ?thesis
    using assms pool attr create
    by (auto simp: lua_apr_thread_def lua_apr_thread_fail_def push_error_status_def
        thread_destroy_def Let_def
        split: sum.splits option.splits if_splits)
qed

section \<open>Join\<close>

text \<open>
  C1. Whenever \<^verbatim>\<open>join\<close> gets past the wait (the handle was joined before, or the
  wait primitive succeeds), the object afterwards is the handle itself if it was joined
  before, and otherwise the handle with the flag set and with the status and output that
  the wait found. The result is decided by that status: for \<open>TS_DONE\<close> the values are
  \<open>true\<close> followed by what the deserializer makes of \<open>output\<close> (or the
  deserializer's error, should it raise); for every other status they are \<open>false\<close>
  followed by \<open>output\<close> as a string, nil when there is none.
\<close>

theorem thread_join_result:
  assumes "thread_join E object = (r, object', evs)"
      and "joined object \<or> fst (apr_thread_join E object) = APR_SUCCESS"
  shows "object' =
           (if joined object then object
            else object\<lparr>status := fst (snd (apr_thread_join E object)),
                        output := snd (snd (apr_thread_join E object)),
                        joined := True\<rparr>) \<and>
         joined object' \<and>
         (status object' = TS_DONE \<longrightarrow>
            r = (case lua_apr_unserialize E (lua_pushstring (output object')) of
                   Inl err \<Rightarrow> Raise err
                 | Inr vs \<Rightarrow> Return (LBoolean True # vs)) \<and>
            evs = (if joined object then [] else [Apr_thread_join]) @ [Lua_apr_unserialize]) \<and>
         (status object' \<noteq> TS_DONE \<longrightarrow>
            r = Return [LBoolean False, lua_pushstring (output object')] \<and>
            evs = (if joined object then [] else [Apr_thread_join]))"
  using assms
  by (auto simp: thread_join_def Let_def split: prod.splits if_splits sum.splits)

theorem thread_join_result_witness:
  "thread_join demo_env demo_thread =
     (Return [LBoolean True, LNumber 1, LString ''two'', LBoolean True],
      demo_thread\<lparr>status := TS_DONE, output := Some ''1|two|true'', joined := True\<rparr>,
      [Apr_thread_join, Lua_apr_unserialize]) \<and>
   fst (apr_thread_join demo_env demo_thread) = APR_SUCCESS \<and>
   lua_apr_unserialize demo_env (lua_pushstring (Some ''1|two|true'')) =
     Inr [LNumber 1, LString ''two'', LBoolean True] \<and>
   thread_join (demo_env\<lparr>apr_thread_join := \<lambda>t. (0, TS_ERROR, Some ''boom'')\<rparr>) demo_thread =
     (Return [LBoolean False, LString ''boom''],
      demo_thread\<lparr>status := TS_ERROR, output := Some ''boom'', joined := True\<rparr>,
      [Apr_thread_join])"
proof -
  have ok: "joined demo_thread \<or> fst (apr_thread_join demo_env demo_thread) = APR_SUCCESS"
    by (simp add: demo_env_def APR_SUCCESS_def)
  have ok': "joined demo_thread \<or>
      fst (apr_thread_join (demo_env\<lparr>apr_thread_join := \<lambda>t. (0, TS_ERROR, Some ''boom'')\<rparr>)
            demo_thread) = APR_SUCCESS"
    by (simp add: APR_SUCCESS_def)
  have a: "fst (apr_thread_join demo_env demo_thread) = APR_SUCCESS"
    "lua_apr_unserialize demo_env (lua_pushstring (Some ''1|two|true'')) =
       Inr [LNumber 1, LString ''two'', LBoolean True]"
    by (simp_all add: demo_env_def APR_SUCCESS_def lua_pushstring_def demo_results_def)
  show ?thesis
    using thread_join_result [OF demo_join ok] thread_join_result [OF demo_join_error ok']
    by (intro conjI) (rule demo_join demo_join_error a)+
qed

text \<open>
  C2. A successful first \<^verbatim>\<open>join\<close> sets the flag and calls the wait primitive
  once; a second \<^verbatim>\<open>join\<close> returns the same values, leaves the object as it is
  and does not call the wait primitive. No operation on a handle clears the flag again.
\<close>

theorem thread_join_twice:
  assumes "\<not> joined object"
      and "fst (apr_thread_join E object) = APR_SUCCESS"
      and "thread_join E object = (r1, object1, evs1)"
      and "thread_join E object1 = (r2, object2, evs2)"
  shows "joined object1 \<and> joined object2 \<and> r2 = r1 \<and> object2 = object1 \<and>
         count_list evs1 Apr_thread_join = 1 \<and> Apr_thread_join \<notin> set evs2 \<and>
         (\<forall>E' t. joined t \<longrightarrow>
            joined (fst (snd (thread_join E' t))) \<and>
            joined (fst (snd (thread_detach E' t))) \<and>
            joined (fst (snd (thread_gc E' t))))"
proof -
  have mono: "\<forall>E' t. joined t \<longrightarrow>
            joined (fst (snd (thread_join E' t))) \<and>
            joined (fst (snd (thread_detach E' t))) \<and>
            joined (fst (snd (thread_gc E' t)))"
    by (auto simp: thread_join_def thread_detach_def thread_gc_def thread_destroy_def Let_def
        split: prod.splits sum.splits if_splits)
  from assms have "joined object1 \<and> joined object2 \<and> r2 = r1 \<and> object2 = object1 \<and>
         count_list evs1 Apr_thread_join = 1 \<and> Apr_thread_join \<notin> set evs2"
    by (auto simp: thread_join_def Let_def split: prod.splits sum.splits if_splits)
  with mono show ?thesis by blast
qed

theorem thread_join_twice_witness:
  "\<not> joined demo_thread \<and> fst (apr_thread_join demo_env demo_thread) = APR_SUCCESS \<and>
   thread_join demo_env demo_thread =
     (Return [LBoolean True, LNumber 1, LString ''two'', LBoolean True],
      demo_thread\<lparr>status := TS_DONE, output := Some ''1|two|true'', joined := True\<rparr>,
      [Apr_thread_join, Lua_apr_unserialize]) \<and>
   thread_join demo_env
       (demo_thread\<lparr>status := TS_DONE, output := Some ''1|two|true'', joined := True\<rparr>) =
     (Return [LBoolean True, LNumber 1, LString ''two'', LBoolean True],
      demo_thread\<lparr>status := TS_DONE, output := Some ''1|two|true'', joined := True\<rparr>,
      [Lua_apr_unserialize])"
proof -
  have a: "\<not> joined demo_thread" by (simp add: demo_thread_def)
  have b: "fst (apr_thread_join demo_env demo_thread) = APR_SUCCESS"
    by (simp add: demo_env_def APR_SUCCESS_def)
  obtain r2 o2 e2 where c: "thread_join demo_env
       (demo_thread\<lparr>status := TS_DONE, output := Some ''1|two|true'', joined := True\<rparr>) =
       (r2, o2, e2)"
    by (cases "thread_join demo_env
       (demo_thread\<lparr>status := TS_DONE, output := Some ''1|two|true'', joined := True\<rparr>)") auto
  have d: "e2 = [Lua_apr_unserialize]"
    using c by (simp add: thread_join_def demo_env_def demo_thread_def demo_results_def
        lua_pushstring_def)
  show ?thesis
    using thread_join_twice [OF a b demo_join c] a b c d demo_join by simp
qed

text \<open>
  C10. When the wait primitive fails, \<^verbatim>\<open>join\<close> returns nil and the message for
  the status code and writes no field: the flag stays clear, the object holds what the wait
  left in memory (the object itself when the worker wrote nothing meanwhile), and the next
  \<^verbatim>\<open>join\<close> begins with the wait primitive again.
\<close>

theorem thread_join_failure:
  assumes "\<not> joined object"
      and "apr_thread_join E object = (st, s, out)"
      and "st \<noteq> APR_SUCCESS"
      and "thread_join E object = (r, object', evs)"
  shows "r = Return [LNil, LString (apr_strerror E st)] \<and>
         \<not> joined object' \<and>
         object' = object\<lparr>status := s, output := out\<rparr> \<and>
         (s = status object \<and> out = output object \<longrightarrow> object' = object) \<and>
         evs = [Apr_thread_join] \<and>
         hd (snd (snd (thread_join E object'))) = Apr_thread_join"
  using assms
  by (auto simp: thread_join_def push_error_status_def Let_def
      split: prod.splits sum.splits if_splits)

theorem thread_join_failure_witness:
  "\<not> joined demo_thread \<and>
   apr_thread_join EINVAL_env demo_thread = (22, TS_INIT, None) \<and>
   22 \<noteq> APR_SUCCESS \<and>
   thread_join EINVAL_env demo_thread =
     (Return [LNil, LString ''Invalid argument''], demo_thread, [Apr_thread_join]) \<and>
   hd (snd (snd (thread_join EINVAL_env demo_thread))) = Apr_thread_join"
proof -
  have a: "\<not> joined demo_thread" by (simp add: demo_thread_def)
  have b: "apr_thread_join EINVAL_env demo_thread = (22, TS_INIT, None)"
    by (simp add: EINVAL_env_def demo_thread_def)
  have c: "(22::int) \<noteq> APR_SUCCESS" by (simp add: APR_SUCCESS_def)
  have d: "thread_join EINVAL_env demo_thread =
     (Return [LNil, LString ''Invalid argument''], demo_thread, [Apr_thread_join])"
    by (simp add: thread_join_def EINVAL_env_def demo_env_def demo_thread_def APR_SUCCESS_def
        push_error_status_def)
  show ?thesis
    using thread_join_failure [OF a b c d] a b c d by simp
qed

section \<open>Detach\<close>

text \<open>
  C9. \<^verbatim>\<open>detach\<close> calls the detach primitive once. On success it returns
  \<open>true\<close> and stores \<open>TS_DETACH\<close> in the status, nothing else changes. On failure it
  returns nil and the message for the status code and the object is untouched, so a later
  \<^verbatim>\<open>join\<close> behaves as it would have before.
\<close>

theorem thread_detach_result:
  assumes "thread_detach E object = (r, object', evs)"
  shows "(apr_thread_detach E object = APR_SUCCESS \<longrightarrow>
            r = Return [LBoolean True] \<and> status object' = TS_DETACH \<and>
            object' = object\<lparr>status := TS_DETACH\<rparr> \<and>
            evs = [Apr_thread_detach, Write_status TS_DETACH]) \<and>
         (apr_thread_detach E object \<noteq> APR_SUCCESS \<longrightarrow>
            r = Return [LNil, LString (apr_strerror E (apr_thread_detach E object))] \<and>
            object' = object \<and> thread_join E object' = thread_join E object \<and>
            evs = [Apr_thread_detach])"
  using assms
  by (auto simp: thread_detach_def push_error_status_def Let_def split: if_splits)

theorem thread_detach_result_witness:
  "thread_detach demo_env demo_thread =
     (Return [LBoolean True], demo_thread\<lparr>status := TS_DETACH\<rparr>,
      [Apr_thread_detach, Write_status TS_DETACH]) \<and>
   apr_thread_detach demo_env demo_thread = APR_SUCCESS \<and>
   thread_detach (demo_env\<lparr>apr_thread_detach := \<lambda>t. 22\<rparr>) demo_thread =
     (Return [LNil, LString ''Invalid argument''], demo_thread, [Apr_thread_detach]) \<and>
   apr_thread_detach (demo_env\<lparr>apr_thread_detach := \<lambda>t. 22\<rparr>) demo_thread \<noteq> APR_SUCCESS"
proof -
  have a: "thread_detach demo_env demo_thread =
     (Return [LBoolean True], demo_thread\<lparr>status := TS_DETACH\<rparr>,
      [Apr_thread_detach, Write_status TS_DETACH])"
    by (simp add: thread_detach_def demo_env_def APR_SUCCESS_def)
  have b: "thread_detach (demo_env\<lparr>apr_thread_detach := \<lambda>t. 22\<rparr>) demo_thread =
     (Return [LNil, LString ''Invalid argument''], demo_thread, [Apr_thread_detach])"
    by (simp add: thread_detach_def demo_env_def APR_SUCCESS_def push_error_status_def)
  show ?thesis
    using thread_detach_result [OF a] thread_detach_result [OF b] a b
    by (simp add: demo_env_def APR_SUCCESS_def)
qed

text \<open>
  C4. \<^verbatim>\<open>join\<close> on a detached handle: \<^verbatim>\<open>thread_join\<close> tests only
  the flag, never the status, so the wait primitive is applied to the detached thread.
  Where the primitive refuses, the caller gets its error; where it reports success, the
  handle counts as joined. The finalizer, in contrast, tests for \<open>TS_DETACH\<close> first.
\<close>

theorem thread_join_detached:
  "thread_detach demo_env demo_thread =
     (Return [LBoolean True], demo_thread\<lparr>status := TS_DETACH\<rparr>,
      [Apr_thread_detach, Write_status TS_DETACH]) \<and>
   thread_join EINVAL_env (demo_thread\<lparr>status := TS_DETACH\<rparr>) =
     (Return [LNil, LString ''Invalid argument''], demo_thread\<lparr>status := TS_DETACH\<rparr>,
      [Apr_thread_join]) \<and>
   thread_join demo_env (demo_thread\<lparr>status := TS_DETACH\<rparr>) =
     (Return [LBoolean True, LNumber 1, LString ''two'', LBoolean True],
      demo_thread\<lparr>status := TS_DONE, output := Some ''1|two|true'', joined := True\<rparr>,
      [Apr_thread_join, Lua_apr_unserialize])"
  by (simp add: thread_join_def thread_detach_def EINVAL_env_def demo_env_def demo_thread_def
        APR_SUCCESS_def push_error_status_def lua_pushstring_def demo_results_def)

section \<open>Finalizer\<close>




section \<open>Thread runner\<close>

text \<open>
  C3. A worker function that raises a value which is neither a string nor a number, here a
  table: \<^verbatim>\<open>lua_tostring\<close> yields \<^verbatim>\<open>NULL\<close>, which goes to
  \<^verbatim>\<open>strdup\<close>. The run ends there: the last status written is
  \<open>TS_RUNNING\<close>, neither \<open>TS_DONE\<close> nor \<open>TS_ERROR\<close> is stored, and
  \<^verbatim>\<open>apr_thread_exit\<close> is not reached. Likewise when the deserializer raises:
  no protected call is active, the status is never written and the run ends in Lua's panic
  handler.
\<close>

theorem thread_runner_nonstring_error:
  "thread_runner (demo_env\<lparr>lua_pcall := \<lambda>f args. Inl (LTable 0)\<rparr>) demo_thread =
     (Undefined_behaviour, demo_thread\<lparr>header := 2, status := TS_RUNNING\<rparr>,
      [Object_incref, LuaL_newstate True, LuaL_openlibs,
       Lua_setfield_package ''config'' LNil,
       Lua_setfield_package ''path'' (LString ''./?.lua''),
       Lua_setfield_package ''cpath'' (LString ''./?.so''),
       Lua_apr_unserialize, Write_status TS_RUNNING, Lua_pcall]) \<and>
   thread_runner (demo_env\<lparr>lua_apr_unserialize := \<lambda>v. Inl (LString ''cannot unserialize'')\<rparr>)
       demo_thread =
     (Lua_panic (LString ''cannot unserialize''), demo_thread\<lparr>header := 2\<rparr>,
      [Object_incref, LuaL_newstate True, LuaL_openlibs,
       Lua_setfield_package ''config'' LNil,
       Lua_setfield_package ''path'' (LString ''./?.lua''),
       Lua_setfield_package ''cpath'' (LString ''./?.so''),
       Lua_apr_unserialize])"
  by (simp add: thread_runner_def demo_env_def demo_thread_def lua_pushstring_def
      lua_isstring_def lua_tolstring_def)




text \<open>
  C8. In every run of the runner, \<open>TS_RUNNING\<close> is written only after the interpreter
  has been created, its libraries opened, the three package fields set and the payload
  decoded, and compiled where it was source text. For the object that
  \<^verbatim>\<open>apr.thread\<close> has returned, with nothing but the runner writing the status, a
  reader sees \<open>init\<close> or \<open>running\<close> at every point of the run before the call of
  the worker function has returned, unless creating the interpreter or compiling the
  function has failed; in these two cases the run ends with status \<open>TS_ERROR\<close>, and
  neither \<open>TS_RUNNING\<close> is written nor the worker function called.
\<close>

theorem thread_runner_status_order:
  assumes "thread_runner E thread = (ex, thread', evs)"
  shows "(\<forall>pre post. evs = pre @ Write_status TS_RUNNING # post \<longrightarrow>
            LuaL_newstate True \<in> set pre \<and> LuaL_openlibs \<in> set pre \<and>
            Lua_setfield_package ''config'' (lua_pushstring (config thread)) \<in> set pre \<and>
            Lua_setfield_package ''path'' (lua_pushstring (path thread)) \<in> set pre \<and>
            Lua_setfield_package ''cpath'' (lua_pushstring (cpath thread)) \<in> set pre \<and>
            Lua_apr_unserialize \<in> set pre \<and> LuaL_loadbuffer False \<notin> set pre \<and>
            Lua_pcall \<notin> set pre \<and>
            (\<forall>f args.
               lua_apr_unserialize E (lua_pushstring (input thread)) = Inr (f # args) \<and>
               lua_isstring f \<longrightarrow> LuaL_loadbuffer True \<in> set pre)) \<and>
         (\<forall>E0 args ud evs0 pre post.
            lua_apr_thread E0 args = (Return [LUserdata ud], Some thread, evs0) \<and>
            evs = pre @ post \<and> Lua_pcall \<notin> set pre \<and> LuaL_newstate False \<notin> set pre \<and>
            LuaL_loadbuffer False \<notin> set pre \<longrightarrow>
              thread_status
                (thread\<lparr>status :=
                   foldl (\<lambda>st e. case e of Write_status s \<Rightarrow> s | _ \<Rightarrow> st) (status thread) pre\<rparr>) =
                Return [LString ''init''] \<or>
              thread_status
                (thread\<lparr>status :=
                   foldl (\<lambda>st e. case e of Write_status s \<Rightarrow> s | _ \<Rightarrow> st) (status thread) pre\<rparr>) =
                Return [LString ''running'']) \<and>
         (\<not> luaL_newstate E \<longrightarrow>
            ex = Thread_exit APR_SUCCESS \<and> status thread' = TS_ERROR \<and>
            Lua_pcall \<notin> set evs \<and> Write_status TS_RUNNING \<notin> set evs) \<and>
         (\<forall>f args src msg.
            luaL_newstate E \<and>
            lua_apr_unserialize E (lua_pushstring (input thread)) = Inr (f # args) \<and>
            lua_tolstring (lua_number2str E) f = Some src \<and>
            luaL_loadbuffer E src = Inl msg \<longrightarrow>
              ex = Thread_exit APR_SUCCESS \<and> status thread' = TS_ERROR \<and>
              Lua_pcall \<notin> set evs \<and> Write_status TS_RUNNING \<notin> set evs)"
proof -
  have running: "\<forall>pre post. evs = pre @ Write_status TS_RUNNING # post \<longrightarrow>
            LuaL_newstate True \<in> set pre \<and> LuaL_openlibs \<in> set pre \<and>
            Lua_setfield_package ''config'' (lua_pushstring (config thread)) \<in> set pre \<and>
            Lua_setfield_package ''path'' (lua_pushstring (path thread)) \<in> set pre \<and>
            Lua_setfield_package ''cpath'' (lua_pushstring (cpath thread)) \<in> set pre \<and>
            Lua_apr_unserialize \<in> set pre \<and> LuaL_loadbuffer False \<notin> set pre \<and>
            Lua_pcall \<notin> set pre \<and>
            (\<forall>f args.
               lua_apr_unserialize E (lua_pushstring (input thread)) = Inr (f # args) \<and>
               lua_isstring f \<longrightarrow> LuaL_loadbuffer True \<in> set pre)"
  proof (intro allI impI)
    fix pre post
    assume split: "evs = pre @ Write_status TS_RUNNING # post"
    have "\<forall>f args.
               lua_apr_unserialize E (lua_pushstring (input thread)) = Inr (f # args) \<and>
               lua_isstring f \<longrightarrow> LuaL_loadbuffer True \<in> set pre"
      using thread_runner_compiles_first [OF assms split] by blast
    with thread_runner_writes [OF assms split]
    show "LuaL_newstate True \<in> set pre \<and> LuaL_openlibs \<in> set pre \<and>
            Lua_setfield_package ''config'' (lua_pushstring (config thread)) \<in> set pre \<and>
            Lua_setfield_package ''path'' (lua_pushstring (path thread)) \<in> set pre \<and>
            Lua_setfield_package ''cpath'' (lua_pushstring (cpath thread)) \<in> set pre \<and>
            Lua_apr_unserialize \<in> set pre \<and> LuaL_loadbuffer False \<notin> set pre \<and>
            Lua_pcall \<notin> set pre \<and>
            (\<forall>f args.
               lua_apr_unserialize E (lua_pushstring (input thread)) = Inr (f # args) \<and>
               lua_isstring f \<longrightarrow> LuaL_loadbuffer True \<in> set pre)"
      by simp
  qed
  have observed: "\<forall>E0 args ud evs0 pre post.
            lua_apr_thread E0 args = (Return [LUserdata ud], Some thread, evs0) \<and>
            evs = pre @ post \<and> Lua_pcall \<notin> set pre \<and> LuaL_newstate False \<notin> set pre \<and>
            LuaL_loadbuffer False \<notin> set pre \<longrightarrow>
              thread_status
                (thread\<lparr>status :=
                   foldl (\<lambda>st e. case e of Write_status s \<Rightarrow> s | _ \<Rightarrow> st) (status thread) pre\<rparr>) =
                Return [LString ''init''] \<or>
              thread_status
                (thread\<lparr>status :=
                   foldl (\<lambda>st e. case e of Write_status s \<Rightarrow> s | _ \<Rightarrow> st) (status thread) pre\<rparr>) =
                Return [LString ''running'']"
  proof (intro allI impI)
    fix E0 args ud evs0 pre post
    assume h: "lua_apr_thread E0 args = (Return [LUserdata ud], Some thread, evs0) \<and>
            evs = pre @ post \<and> Lua_pcall \<notin> set pre \<and> LuaL_newstate False \<notin> set pre \<and>
            LuaL_loadbuffer False \<notin> set pre"
    then have init: "status thread = TS_INIT"
      using lua_apr_thread_status_init by blast
    have only_running: "\<And>p s q. pre = p @ Write_status s # q \<Longrightarrow> s = TS_RUNNING"
    proof -
      fix p s q
      assume pre: "pre = p @ Write_status s # q"
      with h have "evs = p @ Write_status s # (q @ post)" by simp
      from thread_runner_writes [OF assms this] h pre show "s = TS_RUNNING"
        by (cases s) auto
    qed
    have "foldl (\<lambda>st e. case e of Write_status s \<Rightarrow> s | _ \<Rightarrow> st) TS_INIT pre = TS_INIT \<or>
          foldl (\<lambda>st e. case e of Write_status s \<Rightarrow> s | _ \<Rightarrow> st) TS_INIT pre = TS_RUNNING"
      by (rule status_after_prefix) (rule only_running)
    with init show "thread_status
                (thread\<lparr>status :=
                   foldl (\<lambda>st e. case e of Write_status s \<Rightarrow> s | _ \<Rightarrow> st) (status thread) pre\<rparr>) =
                Return [LString ''init''] \<or>
              thread_status
                (thread\<lparr>status :=
                   foldl (\<lambda>st e. case e of Write_status s \<Rightarrow> s | _ \<Rightarrow> st) (status thread) pre\<rparr>) =
                Return [LString ''running'']"
      by (auto simp: thread_status_def status_names_def)
  qed
  from running observed thread_runner_early_error [OF assms] show ?thesis by blast
qed

theorem thread_runner_status_order_witness:
  "thread_runner demo_env demo_thread =
     (Thread_exit APR_SUCCESS,
      demo_thread\<lparr>output := Some ''1|two|true'', status := TS_DONE\<rparr>,
      [Object_incref, LuaL_newstate True, LuaL_openlibs,
       Lua_setfield_package ''config'' LNil,
       Lua_setfield_package ''path'' (LString ''./?.lua''),
       Lua_setfield_package ''cpath'' (LString ''./?.so''),
       Lua_apr_unserialize, Write_status TS_RUNNING, Lua_pcall, Lua_apr_serialize,
       Write_output (Some ''1|two|true''), Lua_close, Write_status TS_DONE,
       Release_object, Apr_thread_exit APR_SUCCESS]) \<and>
   lua_apr_thread demo_env [LFunction 0] =
     (Return [LUserdata 7], Some demo_thread,
      [Lua_apr_serialize, New_object, Write_status TS_INIT, Apr_pool_create,
       Apr_threadattr_create, Apr_thread_create]) \<and>
   thread_status
     (demo_thread\<lparr>status :=
        foldl (\<lambda>st e. case e of Write_status s \<Rightarrow> s | _ \<Rightarrow> st) (status demo_thread)
          [Object_incref, LuaL_newstate True, LuaL_openlibs,
           Lua_setfield_package ''config'' LNil,
           Lua_setfield_package ''path'' (LString ''./?.lua''),
           Lua_setfield_package ''cpath'' (LString ''./?.so''),
           Lua_apr_unserialize, Write_status TS_RUNNING]\<rparr>) =
     Return [LString ''running''] \<and>
   luaL_newstate source_env \<and>
   lua_apr_unserialize source_env (lua_pushstring (input demo_thread)) =
     Inr [LString ''return +''] \<and>
   lua_tolstring (lua_number2str source_env) (LString ''return +'') = Some ''return +'' \<and>
   luaL_loadbuffer source_env ''return +'' = Inl ''syntax error'' \<and>
   status (fst (snd (thread_runner source_env demo_thread))) = TS_ERROR"
proof -
  have a: "thread_status
     (demo_thread\<lparr>status :=
        foldl (\<lambda>st e. case e of Write_status s \<Rightarrow> s | _ \<Rightarrow> st) (status demo_thread)
          [Object_incref, LuaL_newstate True, LuaL_openlibs,
           Lua_setfield_package ''config'' LNil,
           Lua_setfield_package ''path'' (LString ''./?.lua''),
           Lua_setfield_package ''cpath'' (LString ''./?.so''),
           Lua_apr_unserialize, Write_status TS_RUNNING]\<rparr>) =
     Return [LString ''running'']"
    by (simp add: thread_status_def status_names_def)
  have b: "luaL_newstate source_env"
    "lua_apr_unserialize source_env (lua_pushstring (input demo_thread)) =
       Inr [LString ''return +'']"
    "lua_tolstring (lua_number2str source_env) (LString ''return +'') = Some ''return +''"
    "luaL_loadbuffer source_env ''return +'' = Inl ''syntax error''"
    by (simp_all add: source_env_def demo_env_def lua_tolstring_def)
  have c: "status (fst (snd (thread_runner source_env demo_thread))) = TS_ERROR"
    by (simp add: source_runner)
  show ?thesis
    using thread_runner_status_order [OF demo_runner] thread_runner_status_order [OF source_runner]
    by (intro conjI) (rule demo_runner demo_spawn a b c)+
qed

text \<open>
  Without the exception the statement fails: when the interpreter cannot be created, or the
  source text of the function does not compile, the status is \<open>error\<close> although the
  worker function was never called.
\<close>

theorem thread_runner_status_early_error:
  "thread_runner (demo_env\<lparr>luaL_newstate := False\<rparr>) demo_thread =
     (Thread_exit APR_SUCCESS,
      demo_thread\<lparr>output := Some ''Failed to create Lua state'', status := TS_ERROR\<rparr>,
      [Object_incref, LuaL_newstate False,
       Write_output (Some ''Failed to create Lua state''), Write_status TS_ERROR,
       Release_object, Apr_thread_exit APR_SUCCESS]) \<and>
   Lua_pcall \<notin> set [Object_incref, LuaL_newstate False,
       Write_output (Some ''Failed to create Lua state''), Write_status TS_ERROR] \<and>
   thread_status
     (demo_thread\<lparr>output := Some ''Failed to create Lua state'', status := TS_ERROR\<rparr>) =
     Return [LString ''error''] \<and>
   thread_runner source_env demo_thread =
     (Thread_exit APR_SUCCESS,
      demo_thread\<lparr>output := Some ''syntax error'', status := TS_ERROR\<rparr>,
      [Object_incref, LuaL_newstate True, LuaL_openlibs,
       Lua_setfield_package ''config'' LNil,
       Lua_setfield_package ''path'' (LString ''./?.lua''),
       Lua_setfield_package ''cpath'' (LString ''./?.so''),
       Lua_apr_unserialize, LuaL_loadbuffer False, Write_output (Some ''syntax error''),
       Lua_close, Write_status TS_ERROR, Release_object, Apr_thread_exit APR_SUCCESS]) \<and>
   thread_status (demo_thread\<lparr>output := Some ''syntax error'', status := TS_ERROR\<rparr>) =
     Return [LString ''error'']"
proof -
  have "thread_runner (demo_env\<lparr>luaL_newstate := False\<rparr>) demo_thread =
     (Thread_exit APR_SUCCESS,
      demo_thread\<lparr>output := Some ''Failed to create Lua state'', status := TS_ERROR\<rparr>,
      [Object_incref, LuaL_newstate False,
       Write_output (Some ''Failed to create Lua state''), Write_status TS_ERROR,
       Release_object, Apr_thread_exit APR_SUCCESS])"
    by (simp add: thread_runner_def thread_destroy_def demo_env_def demo_thread_def
        strdup_def APR_SUCCESS_def)
  then show ?thesis
    by (simp add: source_runner thread_status_def status_names_def)
qed

section \<open>Spawn\<close>




end

